theory Spec2Isabelle
  imports Complex_Main
begin

section \<open>Data model of \<^verbatim>\<open>main.go\<close>\<close>

text \<open>
  The gateway keeps two pieces of global state (\<^verbatim>\<open>redisClient\<close> and
  \<^verbatim>\<open>healthCache\<close>) and talks to three outside parties: the two payment
  processors over HTTP, a Redis server, and the wall clock. The embedding below runs
  one goroutine at a time: a function takes the global state and returns the new one,
  and every call that leaves the process is appended to a history of events. What the
  outside answers is read from an environment, which may answer differently at every
  point of the history.
\<close>

subsection \<open>Values\<close>

text \<open>
  Go's \<^verbatim>\<open>float64\<close>. The program never computes with an amount: it copies it
  into the JSON payload, into the Redis command and into log lines. So only the shape of
  the value matters here: a finite number, or one of the three values that
  \<^verbatim>\<open>encoding/json\<close> refuses to encode.
\<close>

datatype float64 = Finite rat | NaN | PosInf | NegInf

text \<open>The values a \<^verbatim>\<open>map[string]interface{}\<close> payload holds in this program.\<close>

datatype go_value = GoString string | GoFloat64 float64

type_synonym ppReq = "(string \<times> go_value) list"

record PaymentRequest =
  CorrelationID :: string
  Amount :: float64

record ProcessorSummary =
  TotalRequests :: int
  TotalAmount :: float64

text \<open>
  \<^verbatim>\<open>HealthCheckCache\<close> has the two fields of \<^verbatim>\<open>HealthCheckResponse\<close>
  and the time of the check. A \<^verbatim>\<open>time.Time\<close> is a number of nanoseconds counted
  from the zero time, so that \<^verbatim>\<open>time.Time{}\<close> is \<open>0\<close>.
\<close>

record HealthCheckResponse =
  Failing :: bool
  MinResponseTime :: int

record HealthCheckCache = HealthCheckResponse +
  LastCheckedAt :: int

subsection \<open>The outside world\<close>

text \<open>
  The answer to \<^verbatim>\<open>httpClient.Get\<close>: a transport error, or a response with its
  status code and the result of decoding its body into a \<^verbatim>\<open>HealthCheckResponse\<close>
  (\<open>None\<close> when \<^verbatim>\<open>Decode\<close> returns an error).
\<close>

datatype get_reply = GetErr | GetResp int "HealthCheckResponse option"

text \<open>The answer to \<^verbatim>\<open>httpClient.Post\<close>: a transport error or a status code.\<close>

datatype post_reply = PostErr | PostResp int

text \<open>
  The answer to \<^verbatim>\<open>HGet(...).Result()\<close>: the stored string, \<^verbatim>\<open>redis.Nil\<close>
  for a missing key or field, or another error.
\<close>

datatype hget_reply = HGetVal string | HGetNil | HGetErr

datatype redis_cmd =
    HIncrBy string string int
  | HIncrByFloat string string float64

text \<open>The log lines of the program, one constructor for each \<^verbatim>\<open>log.Printf\<close>.\<close>

datatype log_msg =
    RedisUnavailable
  | DefaultFailedTryingFallback string
  | PaymentProcessed string string
  | PaymentFailed string
  | HealthCheckError string
  | RateLimitExceeded string
  | HealthDecodeError string
  | HealthCheckUpdated string bool int
  | MarshalError
  | AttemptError nat string
  | AttemptStatus int nat string
  | RedisUpdateError
  | InMemoryCounters string float64
  | RedisTotalRequestsError
  | RedisTotalAmountError

text \<open>
  The history. \<open>HttpGet\<close>, \<open>HttpPost\<close>, \<open>Sleep\<close>, \<open>RedisPing\<close>,
  \<open>RedisExec\<close>, \<open>RedisHGet\<close> and \<open>Log\<close> are the calls that leave the
  process. \<open>SendCall\<close> and \<open>RecordCall\<close> mark the entry of
  \<^verbatim>\<open>sendToProcessor\<close> and of \<^verbatim>\<open>updateSummaryCounters\<close>: they have no
  counterpart in the source and only make the calls countable in the history.
\<close>

datatype event =
    HttpGet string
  | HttpPost string ppReq
  | Sleep int
  | RedisPing
  | RedisExec "redis_cmd list"
  | RedisHGet string string
  | Log log_msg
  | SendCall string
  | RecordCall string float64

text \<open>
  The environment: what the clock, the processors and Redis answer after a given
  history, and the library functions whose results the program only passes on.
  \<open>pipe_Exec\<close> and \<open>redis_Ping\<close> are \<open>True\<close> when the call returns no error.
\<close>

record env =
  time_Now :: "event list \<Rightarrow> int"
  http_Get :: "event list \<Rightarrow> string \<Rightarrow> get_reply"
  http_Post :: "event list \<Rightarrow> string \<Rightarrow> ppReq \<Rightarrow> post_reply"
  redis_Ping :: "event list \<Rightarrow> bool"
  pipe_Exec :: "event list \<Rightarrow> redis_cmd list \<Rightarrow> bool"
  redis_HGet :: "event list \<Rightarrow> string \<Rightarrow> string \<Rightarrow> hget_reply"
  strconv_Atoi :: "string \<Rightarrow> int option"
  strconv_ParseFloat :: "string \<Rightarrow> float64 option"
  time_Format :: "int \<Rightarrow> string"

datatype redis_Client = Client string

text \<open>The global variables, and the history so far.\<close>

record world =
  redisClient :: "redis_Client option"
  healthCache :: "string \<rightharpoonup> HealthCheckCache"
  defaultPPURL :: string
  fallbackPPURL :: string
  trace :: "event list"

datatype panic = NilDereference

section \<open>The program\<close>

definition emit :: "event \<Rightarrow> world \<Rightarrow> world" where
  "emit e w = w\<lparr>trace := trace w @ [e]\<rparr>"

definition log_Printf :: "log_msg \<Rightarrow> world \<Rightarrow> world" where
  "log_Printf m w = emit (Log m) w"

definition time_Second :: int where
  "time_Second = 1000000000"

text \<open>
  \<^verbatim>\<open>time.Since(t)\<close> is \<^verbatim>\<open>time.Now().Sub(t)\<close>, and \<^verbatim>\<open>Sub\<close> saturates at
  the least and the greatest \<^verbatim>\<open>Duration\<close> (a signed 64-bit count of nanoseconds).
\<close>

definition time_Since :: "env \<Rightarrow> world \<Rightarrow> int \<Rightarrow> int" where
  "time_Since en w t = max (- (2 ^ 63)) (min (2 ^ 63 - 1) (time_Now en (trace w) - t))"

definition initHealthCache :: "world \<Rightarrow> world" where
  "initHealthCache w =
     w\<lparr>healthCache := (healthCache w)
        (''default'' \<mapsto> \<lparr>Failing = False, MinResponseTime = 100, LastCheckedAt = 0\<rparr>,
         ''fallback'' \<mapsto> \<lparr>Failing = False, MinResponseTime = 200, LastCheckedAt = 0\<rparr>)\<rparr>"

text \<open>
  The start of \<^verbatim>\<open>main\<close>, up to the point where the server starts to listen: the
  Redis client is created and pinged, dropped with one warning when the ping fails, and
  the health cache is initialised.
\<close>

definition main_startup :: "env \<Rightarrow> string \<Rightarrow> world \<Rightarrow> world" where
  "main_startup en redisAddr w =
     (let w1 = w\<lparr>redisClient := Some (Client redisAddr)\<rparr>;
          ok = redis_Ping en (trace w1);
          w2 = emit RedisPing w1;
          w3 = (if \<not> ok then (log_Printf RedisUnavailable w2)\<lparr>redisClient := None\<rparr> else w2)
      in initHealthCache w3)"

definition health_url :: "world \<Rightarrow> string \<Rightarrow> string" where
  "health_url w processor =
     (if processor = ''default'' then defaultPPURL w @ ''/payments/service-health''
      else fallbackPPURL w @ ''/payments/service-health'')"

definition updateHealthCheck :: "env \<Rightarrow> string \<Rightarrow> world \<Rightarrow> world" where
  "updateHealthCheck en processor w =
     (let url = health_url w processor;
          resp = http_Get en (trace w) url;
          w1 = emit (HttpGet url) w
      in case resp of
           GetErr \<Rightarrow>
             (let w2 = log_Printf (HealthCheckError processor) w1
              in w2\<lparr>healthCache := (healthCache w2)
                    (processor \<mapsto> \<lparr>Failing = True, MinResponseTime = 1000,
                                   LastCheckedAt = time_Now en (trace w2)\<rparr>)\<rparr>)
         | GetResp status body \<Rightarrow>
             if status = 429 then log_Printf (RateLimitExceeded processor) w1
             else (case body of
                     None \<Rightarrow> log_Printf (HealthDecodeError processor) w1
                   | Some healthResp \<Rightarrow>
                       log_Printf
                         (HealthCheckUpdated processor (Failing healthResp)
                            (MinResponseTime healthResp))
                         (w1\<lparr>healthCache := (healthCache w1)
                              (processor \<mapsto> \<lparr>Failing = Failing healthResp,
                                 MinResponseTime = MinResponseTime healthResp,
                                 LastCheckedAt = time_Now en (trace w1)\<rparr>)\<rparr>)))"

text \<open>
  A missing key reads as the nil pointer (\<open>None\<close>), and the function can return it:
  after a probe that leaves the cache alone, the second read finds what the first found.
  The source takes the read lock for each of its two reads and releases it in between;
  with one goroutine at a time nothing is written between the probe and the second read.
\<close>

definition getHealthCheck :: "env \<Rightarrow> string \<Rightarrow> world \<Rightarrow> HealthCheckCache option \<times> world" where
  "getHealthCheck en processor w =
     (let cached = healthCache w processor;
          expired = (case cached of
                       None \<Rightarrow> True
                     | Some c \<Rightarrow> time_Since en w (LastCheckedAt c) > 5 * time_Second)
      in if expired
         then (let w1 = updateHealthCheck en processor w in (healthCache w1 processor, w1))
         else (cached, w))"

text \<open>Reading \<^verbatim>\<open>defaultHealth.Failing\<close> through a nil pointer panics.\<close>

definition selectBestProcessor :: "env \<Rightarrow> world \<Rightarrow> (panic + string) \<times> world" where
  "selectBestProcessor en w =
     (case getHealthCheck en ''default'' w of
        (None, w1) \<Rightarrow> (Inl NilDereference, w1)
      | (Some defaultHealth, w1) \<Rightarrow>
          (Inr (if \<not> Failing defaultHealth then ''default'' else ''fallback''), w1))"

subsection \<open>Delivery\<close>

text \<open>
  \<^verbatim>\<open>json.Marshal\<close> returns an error for a \<^verbatim>\<open>float64\<close> that is not finite,
  and the encoding of every other payload of this program. The encoded bytes are only
  handed to \<^verbatim>\<open>httpClient.Post\<close>, so the payload stands for its encoding.
\<close>

fun encodable :: "go_value \<Rightarrow> bool" where
  "encodable (GoString s) = True"
| "encodable (GoFloat64 (Finite q)) = True"
| "encodable (GoFloat64 NaN) = False"
| "encodable (GoFloat64 PosInf) = False"
| "encodable (GoFloat64 NegInf) = False"

definition json_Marshal :: "ppReq \<Rightarrow> ppReq option" where
  "json_Marshal m = (if list_all (\<lambda>kv. encodable (snd kv)) m then Some m else None)"

definition payments_url :: "world \<Rightarrow> string \<Rightarrow> string" where
  "payments_url w processor =
     (if processor = ''default'' then defaultPPURL w @ ''/payments''
      else fallbackPPURL w @ ''/payments'')"

definition maxRetries :: nat where
  "maxRetries = 3"

definition time_Sleep :: "int \<Rightarrow> world \<Rightarrow> world" where
  "time_Sleep d w = emit (Sleep d) w"

text \<open>
  The retry loop of \<^verbatim>\<open>sendToProcessor\<close>, from the iteration \<open>attempt\<close> on.
  After a transport error the loop sleeps and continues, or returns \<open>False\<close> at the
  last attempt; after a status outside \<open>[200, 300)\<close> it sleeps unless it was the last
  attempt, and goes round again.
\<close>

function sendToProcessor_loop ::
  "env \<Rightarrow> string \<Rightarrow> string \<Rightarrow> ppReq \<Rightarrow> nat \<Rightarrow> world \<Rightarrow> bool \<times> world" where
  "sendToProcessor_loop en url processor jsonData attempt w =
     (if attempt < maxRetries then
        (let resp = http_Post en (trace w) url jsonData;
             w1 = emit (HttpPost url jsonData) w
         in case resp of
              PostErr \<Rightarrow>
                (let w2 = log_Printf (AttemptError (attempt + 1) processor) w1
                 in if attempt < maxRetries - 1
                    then sendToProcessor_loop en url processor jsonData (attempt + 1)
                           (time_Sleep (2 ^ attempt * time_Second) w2)
                    else (False, w2))
            | PostResp status \<Rightarrow>
                if 200 \<le> status \<and> status < 300 then (True, w1)
                else (let w2 = log_Printf (AttemptStatus status (attempt + 1) processor) w1;
                          w3 = (if attempt < maxRetries - 1
                                then time_Sleep (2 ^ attempt * time_Second) w2 else w2)
                      in sendToProcessor_loop en url processor jsonData (attempt + 1) w3))
      else (False, w))"
  by pat_completeness auto
termination
  by (relation "measure (\<lambda>(en, url, processor, jsonData, attempt, w). maxRetries - attempt)")
     auto

declare sendToProcessor_loop.simps [simp del]

definition sendToProcessor :: "env \<Rightarrow> string \<Rightarrow> ppReq \<Rightarrow> world \<Rightarrow> bool \<times> world" where
  "sendToProcessor en processor ppReq w =
     (let w0 = emit (SendCall processor) w;
          url = payments_url w0 processor
      in case json_Marshal ppReq of
           None \<Rightarrow> (False, log_Printf MarshalError w0)
         | Some jsonData \<Rightarrow> sendToProcessor_loop en url processor jsonData 0 w0)"

subsection \<open>Counters\<close>

definition summary_key :: "string \<Rightarrow> string" where
  "summary_key processor = ''summary:'' @ processor"

text \<open>The pipeline that \<^verbatim>\<open>updateSummaryCounters\<close> queues for one delivery.\<close>

definition counter_cmds :: "string \<Rightarrow> float64 \<Rightarrow> redis_cmd list" where
  "counter_cmds processor amount =
     [HIncrBy (summary_key processor) ''totalRequests'' 1,
      HIncrByFloat (summary_key processor) ''totalAmount'' amount]"

definition updateSummaryCounters :: "env \<Rightarrow> string \<Rightarrow> float64 \<Rightarrow> world \<Rightarrow> world" where
  "updateSummaryCounters en processor amount w =
     (let w0 = emit (RecordCall processor amount) w
      in case redisClient w0 of
           Some c \<Rightarrow>
             (let cmds = counter_cmds processor amount;
                  ok = pipe_Exec en (trace w0) cmds;
                  w1 = emit (RedisExec cmds) w0
              in if \<not> ok then log_Printf RedisUpdateError w1 else w1)
         | None \<Rightarrow> log_Printf (InMemoryCounters processor amount) w0)"

text \<open>
  One \<^verbatim>\<open>HGet(...).Result()\<close>: the string is empty unless a value came back, and
  an error other than \<^verbatim>\<open>redis.Nil\<close> is logged.
\<close>

definition hget_string :: "hget_reply \<Rightarrow> string" where
  "hget_string r = (case r of HGetVal s \<Rightarrow> s | HGetNil \<Rightarrow> [] | HGetErr \<Rightarrow> [])"

definition getProcessorSummary :: "env \<Rightarrow> string \<Rightarrow> world \<Rightarrow> ProcessorSummary \<times> world" where
  "getProcessorSummary en processor w =
     (case redisClient w of
        Some c \<Rightarrow>
          (let key = summary_key processor;
               r1 = redis_HGet en (trace w) key ''totalRequests'';
               w1 = emit (RedisHGet key ''totalRequests'') w;
               w2 = (if r1 = HGetErr then log_Printf RedisTotalRequestsError w1 else w1);
               totalRequestsStr = hget_string r1;
               r2 = redis_HGet en (trace w2) key ''totalAmount'';
               w3 = emit (RedisHGet key ''totalAmount'') w2;
               w4 = (if r2 = HGetErr then log_Printf RedisTotalAmountError w3 else w3);
               totalAmountStr = hget_string r2;
               totalRequests =
                 (if totalRequestsStr \<noteq> [] then
                    (case strconv_Atoi en totalRequestsStr of Some val \<Rightarrow> val | None \<Rightarrow> 0)
                  else 0);
               totalAmount =
                 (if totalAmountStr \<noteq> [] then
                    (case strconv_ParseFloat en totalAmountStr of
                       Some val \<Rightarrow> val | None \<Rightarrow> Finite 0)
                  else Finite 0)
           in (\<lparr>TotalRequests = totalRequests, TotalAmount = totalAmount\<rparr>, w4))
      | None \<Rightarrow> (\<lparr>TotalRequests = 0, TotalAmount = Finite 0\<rparr>, w))"

subsection \<open>The orchestrator\<close>

definition build_ppReq :: "env \<Rightarrow> PaymentRequest \<Rightarrow> world \<Rightarrow> ppReq" where
  "build_ppReq en req w =
     [(''correlationId'', GoString (CorrelationID req)),
      (''amount'', GoFloat64 (Amount req)),
      (''requestedAt'', GoString (time_Format en (time_Now en (trace w))))]"

text \<open>
  \<^verbatim>\<open>processPayment\<close> runs in its own goroutine. A panic in
  \<^verbatim>\<open>selectBestProcessor\<close> ends it before anything is sent.
\<close>

definition processPayment :: "env \<Rightarrow> PaymentRequest \<Rightarrow> world \<Rightarrow> (panic + unit) \<times> world" where
  "processPayment en req w =
     (case selectBestProcessor en w of
        (Inl p, w1) \<Rightarrow> (Inl p, w1)
      | (Inr processor, w1) \<Rightarrow>
          (let ppReq = build_ppReq en req w1;
               (success, w2) = sendToProcessor en processor ppReq w1;
               (success2, processor2, w4) =
                 (if \<not> success \<and> processor = ''default'' then
                    (let w3 = log_Printf (DefaultFailedTryingFallback (CorrelationID req)) w2;
                         (success', w4) = sendToProcessor en ''fallback'' ppReq w3
                     in (success', if success' then ''fallback'' else processor, w4))
                  else (success, processor, w2))
           in if success2 then
                (Inr (), log_Printf (PaymentProcessed (CorrelationID req) processor2)
                           (updateSummaryCounters en processor2 (Amount req) w4))
              else (Inr (), log_Printf (PaymentFailed (CorrelationID req)) w4)))"

section \<open>Reading the history\<close>

text \<open>The processors that \<^verbatim>\<open>sendToProcessor\<close> was called for, in order.\<close>

fun send_calls :: "event list \<Rightarrow> string list" where
  "send_calls [] = []"
| "send_calls (SendCall p # es) = p # send_calls es"
| "send_calls (e # es) = send_calls es"

text \<open>The calls of \<^verbatim>\<open>updateSummaryCounters\<close>, in order.\<close>

fun record_calls :: "event list \<Rightarrow> (string \<times> float64) list" where
  "record_calls [] = []"
| "record_calls (RecordCall p a # es) = (p, a) # record_calls es"
| "record_calls (e # es) = record_calls es"

text \<open>The Redis pipelines that were executed, in order.\<close>

fun redis_execs :: "event list \<Rightarrow> redis_cmd list list" where
  "redis_execs [] = []"
| "redis_execs (RedisExec cmds # es) = cmds # redis_execs es"
| "redis_execs (e # es) = redis_execs es"

text \<open>The URLs of the health probes and of the payment submissions, in order.\<close>

fun http_gets :: "event list \<Rightarrow> string list" where
  "http_gets [] = []"
| "http_gets (HttpGet url # es) = url # http_gets es"
| "http_gets (e # es) = http_gets es"

fun http_posts :: "event list \<Rightarrow> string list" where
  "http_posts [] = []"
| "http_posts (HttpPost url d # es) = url # http_posts es"
| "http_posts (e # es) = http_posts es"

fun log_lines :: "event list \<Rightarrow> log_msg list" where
  "log_lines [] = []"
| "log_lines (Log m # es) = m # log_lines es"
| "log_lines (e # es) = log_lines es"

text \<open>
  The answers the environment gave to the payment submissions among the events \<open>es\<close>
  that follow the history \<open>past\<close>.
\<close>

fun post_replies :: "env \<Rightarrow> event list \<Rightarrow> event list \<Rightarrow> post_reply list" where
  "post_replies en past [] = []"
| "post_replies en past (HttpPost url d # es) =
     http_Post en past url d # post_replies en (past @ [HttpPost url d]) es"
| "post_replies en past (e # es) = post_replies en (past @ [e]) es"

fun is_success :: "post_reply \<Rightarrow> bool" where
  "is_success PostErr = False"
| "is_success (PostResp status) = (200 \<le> status \<and> status < 300)"

fun is_HttpPost :: "event \<Rightarrow> bool" where
  "is_HttpPost (HttpPost url d) = True"
| "is_HttpPost e = False"

text \<open>
  What one run of the retry loop, entered at iteration \<open>attempt\<close> after the
  history \<open>past\<close>, adds to the history: the events \<open>new\<close>, with the
  result \<open>ok\<close>.
\<close>

definition loop_ok :: "env \<Rightarrow> nat \<Rightarrow> event list \<Rightarrow> event list \<Rightarrow> bool \<Rightarrow> bool" where
  "loop_ok en attempt past new ok =
     (let rs = post_replies en past new in
        length rs \<le> maxRetries - attempt \<and>
        list_all (\<lambda>r. \<not> is_success r) (butlast rs) \<and>
        send_calls new = [] \<and> record_calls new = [] \<and> redis_execs new = [] \<and>
        http_gets new = [] \<and>
        (if ok then rs \<noteq> [] \<and> is_success (last rs) \<and> is_HttpPost (last new)
         else length rs = maxRetries - attempt \<and> list_all (\<lambda>r. \<not> is_success r) rs))"


section \<open>Concrete runs\<close>

text \<open>
  The globals as the \<^verbatim>\<open>var\<close> block leaves them, before \<^verbatim>\<open>main\<close> runs,
  and a few environments to run the program in: one where everything answers, and
  variations of it.
\<close>

definition world0 :: world where
  "world0 = \<lparr>redisClient = None, healthCache = Map.empty,
     defaultPPURL = ''http://payment-processor-default:8080'',
     fallbackPPURL = ''http://payment-processor-fallback:8080'',
     trace = []\<rparr>"

definition env_up :: env where
  "env_up = \<lparr>time_Now = (\<lambda>tr. 64000000000000000000),
     http_Get = (\<lambda>tr url. GetResp 200 (Some \<lparr>Failing = False, MinResponseTime = 5\<rparr>)),
     http_Post = (\<lambda>tr url d. PostResp 200),
     redis_Ping = (\<lambda>tr. True),
     pipe_Exec = (\<lambda>tr cmds. True),
     redis_HGet = (\<lambda>tr k f. HGetNil),
     strconv_Atoi = (\<lambda>s. None),
     strconv_ParseFloat = (\<lambda>s. None),
     time_Format = (\<lambda>t. ''2025-07-01T12:00:00Z'')\<rparr>"

definition env_rate_limited :: env where
  "env_rate_limited = env_up\<lparr>http_Get := (\<lambda>tr url. GetResp 429 None)\<rparr>"

definition env_unreachable :: env where
  "env_unreachable = env_up\<lparr>http_Get := (\<lambda>tr url. GetErr)\<rparr>"

definition env_garbled :: env where
  "env_garbled = env_up\<lparr>http_Get := (\<lambda>tr url. GetResp 200 None)\<rparr>"

definition env_erroring :: env where
  "env_erroring = env_up\<lparr>http_Get :=
     (\<lambda>tr url. GetResp 503 (Some \<lparr>Failing = True, MinResponseTime = 30\<rparr>))\<rparr>"

definition env_flaky :: env where
  "env_flaky = env_up\<lparr>http_Post :=
     (\<lambda>tr url d. if http_posts tr = [] then PostResp 500 else PostResp 201)\<rparr>"

definition env_no_redis :: env where
  "env_no_redis = env_up\<lparr>redis_Ping := (\<lambda>tr. False)\<rparr>"

definition env_primary_down :: env where
  "env_primary_down = env_up\<lparr>http_Post :=
     (\<lambda>tr url d. if url = ''http://payment-processor-default:8080/payments''
                  then PostResp 503 else PostResp 200)\<rparr>"

definition payment1 :: PaymentRequest where
  "payment1 = \<lparr>CorrelationID = ''4a7901b8-7d26-4d9d-aa19-4dc1c7cf60b3'', Amount = Finite 100\<rparr>"

definition started :: "env \<Rightarrow> world" where
  "started en = main_startup en ''localhost:6379'' world0"

section \<open>Frame and history lemmas\<close>

lemmas run_defs = started_def main_startup_def world0_def env_up_def initHealthCache_def
  env_rate_limited_def env_unreachable_def env_garbled_def env_erroring_def
  selectBestProcessor_def getHealthCheck_def updateHealthCheck_def health_url_def
  emit_def log_Printf_def time_Since_def time_Second_def Let_def

lemmas send_defs = sendToProcessor_def json_Marshal_def payments_url_def maxRetries_def
  time_Sleep_def env_flaky_def

lemmas pay_defs = processPayment_def build_ppReq_def updateSummaryCounters_def
  counter_cmds_def summary_key_def env_primary_down_def env_no_redis_def payment1_def

lemma trace_emit [simp]: "trace (emit e w) = trace w @ [e]"
  and healthCache_emit [simp]: "healthCache (emit e w) = healthCache w"
  and redisClient_emit [simp]: "redisClient (emit e w) = redisClient w"
  and defaultPPURL_emit [simp]: "defaultPPURL (emit e w) = defaultPPURL w"
  and fallbackPPURL_emit [simp]: "fallbackPPURL (emit e w) = fallbackPPURL w"
  by (simp_all add: emit_def)

lemma trace_log_Printf [simp]: "trace (log_Printf m w) = trace w @ [Log m]"
  and healthCache_log_Printf [simp]: "healthCache (log_Printf m w) = healthCache w"
  and redisClient_log_Printf [simp]: "redisClient (log_Printf m w) = redisClient w"
  and defaultPPURL_log_Printf [simp]: "defaultPPURL (log_Printf m w) = defaultPPURL w"
  and fallbackPPURL_log_Printf [simp]: "fallbackPPURL (log_Printf m w) = fallbackPPURL w"
  by (simp_all add: log_Printf_def)

lemma trace_time_Sleep [simp]: "trace (time_Sleep d w) = trace w @ [Sleep d]"
  and healthCache_time_Sleep [simp]: "healthCache (time_Sleep d w) = healthCache w"
  and redisClient_time_Sleep [simp]: "redisClient (time_Sleep d w) = redisClient w"
  and defaultPPURL_time_Sleep [simp]: "defaultPPURL (time_Sleep d w) = defaultPPURL w"
  and fallbackPPURL_time_Sleep [simp]: "fallbackPPURL (time_Sleep d w) = fallbackPPURL w"
  by (simp_all add: time_Sleep_def)

lemma post_replies_append:
  "post_replies en past (es1 @ es2) =
     post_replies en past es1 @ post_replies en (past @ es1) es2"
  by (induction en past es1 rule: post_replies.induct) simp_all

lemma send_calls_append [simp]: "send_calls (es1 @ es2) = send_calls es1 @ send_calls es2"
  by (induction es1 rule: send_calls.induct) simp_all

lemma record_calls_append [simp]:
  "record_calls (es1 @ es2) = record_calls es1 @ record_calls es2"
  by (induction es1 rule: record_calls.induct) simp_all

lemma redis_execs_append [simp]:
  "redis_execs (es1 @ es2) = redis_execs es1 @ redis_execs es2"
  by (induction es1 rule: redis_execs.induct) simp_all

lemma http_gets_append [simp]: "http_gets (es1 @ es2) = http_gets es1 @ http_gets es2"
  by (induction es1 rule: http_gets.induct) simp_all

lemma http_posts_append [simp]: "http_posts (es1 @ es2) = http_posts es1 @ http_posts es2"
  by (induction es1 rule: http_posts.induct) simp_all

lemma log_lines_append [simp]: "log_lines (es1 @ es2) = log_lines es1 @ log_lines es2"
  by (induction es1 rule: log_lines.induct) simp_all

lemma post_replies_Nil: "post_replies en past new \<noteq> [] \<Longrightarrow> new \<noteq> []"
  by auto

lemma loop_ok_step:
  assumes "loop_ok en (Suc attempt) (past @ e # mid) new ok"
    and "e = HttpPost url d" and "\<not> is_success (http_Post en past url d)"
    and "attempt < maxRetries"
    and "post_replies en (past @ [e]) mid = []" and "send_calls mid = []"
    and "record_calls mid = []" and "redis_execs mid = []" and "http_gets mid = []"
  shows "loop_ok en attempt past (e # mid @ new) ok"
proof -
  let ?rs = "post_replies en (past @ e # mid) new"
  have rs: "post_replies en past (e # mid @ new) = http_Post en past url d # ?rs"
    using assms(2,5) by (simp add: post_replies_append)
  have new: "ok \<Longrightarrow> new \<noteq> []"
    using assms(1) by (auto simp: loop_ok_def Let_def)
  from assms(1) have a: "length ?rs \<le> maxRetries - Suc attempt"
    and b: "list_all (\<lambda>r. \<not> is_success r) (butlast ?rs)"
    and c: "send_calls new = []" "record_calls new = []" "redis_execs new = []" "http_gets new = []"
    and d: "ok \<Longrightarrow> ?rs \<noteq> [] \<and> is_success (last ?rs) \<and> is_HttpPost (last new)"
    and e: "\<not> ok \<Longrightarrow> length ?rs = maxRetries - Suc attempt \<and> list_all (\<lambda>r. \<not> is_success r) ?rs"
    by (simp_all add: loop_ok_def Let_def split: if_splits)
  show ?thesis
  proof (cases ok)
    case True
    with d new a b c assms(2-4,6-9) show ?thesis
      unfolding loop_ok_def Let_def rs by auto
  next
    case False
    with e a b c assms(2-4,6-9) show ?thesis
      unfolding loop_ok_def Let_def rs by auto
  qed
qed

lemma loop_trace:
  "sendToProcessor_loop en url processor jsonData attempt w = (ok, w') \<Longrightarrow>
   \<exists>new. trace w' = trace w @ new \<and> loop_ok en attempt (trace w) new ok
     \<and> set (http_posts new) \<subseteq> {url}
     \<and> healthCache w' = healthCache w \<and> redisClient w' = redisClient w
     \<and> defaultPPURL w' = defaultPPURL w \<and> fallbackPPURL w' = fallbackPPURL w"
proof (induction en url processor jsonData attempt w arbitrary: ok w'
    rule: sendToProcessor_loop.induct)
  case (1 en url processor jsonData attempt w)
  let ?e = "HttpPost url jsonData"
  let ?w1 = "emit ?e w"
  note unfold = sendToProcessor_loop.simps[of en url processor jsonData attempt w]
  show ?case
  proof (cases "attempt < maxRetries")
    case False
    with "1.prems" show ?thesis
      by (simp add: loop_ok_def unfold)
  next
    case lt: True
    show ?thesis
    proof (cases "http_Post en (trace w) url jsonData")
      case PostErr
      let ?w2 = "log_Printf (AttemptError (attempt + 1) processor) ?w1"
      show ?thesis
      proof (cases "attempt < maxRetries - 1")
        case True
        let ?w3 = "time_Sleep (2 ^ attempt * time_Second) ?w2"
        from "1.prems" lt PostErr True
        have "sendToProcessor_loop en url processor jsonData (attempt + 1) ?w3 = (ok, w')"
          by (simp add: Let_def unfold)
        from "1.IH"(1)[OF lt refl refl PostErr refl True this]
        obtain new where new: "trace w' = trace ?w3 @ new"
          "loop_ok en (attempt + 1) (trace ?w3) new ok"
          "set (http_posts new) \<subseteq> {url}"
          "healthCache w' = healthCache w" "redisClient w' = redisClient w"
          "defaultPPURL w' = defaultPPURL w" "fallbackPPURL w' = fallbackPPURL w"
          by auto
        let ?mid = "[Log (AttemptError (attempt + 1) processor), Sleep (2 ^ attempt * time_Second)]"
        have "loop_ok en attempt (trace w) (?e # ?mid @ new) ok"
          using new(2) PostErr lt by (intro loop_ok_step[where url=url and d=jsonData]) simp_all
        with new show ?thesis
          by (intro exI[of _ "?e # ?mid @ new"]) simp
      next
        case False
        with "1.prems" lt PostErr have "ok = False" "w' = ?w2"
          by (simp_all add: Let_def unfold)
        moreover from False lt have "maxRetries - attempt = 1" by simp
        ultimately show ?thesis using PostErr
          by (intro exI[of _ "[?e, Log (AttemptError (attempt + 1) processor)]"])
            (simp add: loop_ok_def)
      qed
    next
      case (PostResp status)
      show ?thesis
      proof (cases "200 \<le> status \<and> status < 300")
        case True
        with "1.prems" lt PostResp have "ok = True" "w' = ?w1"
          by (simp_all add: Let_def unfold)
        then show ?thesis using PostResp True lt
          by (intro exI[of _ "[?e]"]) (simp add: loop_ok_def)
      next
        case False
        let ?w2 = "log_Printf (AttemptStatus status (attempt + 1) processor) ?w1"
        let ?w3 = "if attempt < maxRetries - 1 then time_Sleep (2 ^ attempt * time_Second) ?w2 else ?w2"
        let ?mid = "Log (AttemptStatus status (attempt + 1) processor) #
           (if attempt < maxRetries - 1 then [Sleep (2 ^ attempt * time_Second)] else [])"
        from "1.prems" lt PostResp False
        have "sendToProcessor_loop en url processor jsonData (attempt + 1) ?w3 = (ok, w')"
          by (simp add: Let_def unfold split: if_splits)
        from "1.IH"(2)[OF lt refl refl PostResp False refl refl this]
        obtain new where new: "trace w' = trace ?w3 @ new"
          "loop_ok en (attempt + 1) (trace ?w3) new ok"
          "set (http_posts new) \<subseteq> {url}"
          "healthCache w' = healthCache w" "redisClient w' = redisClient w"
          "defaultPPURL w' = defaultPPURL w" "fallbackPPURL w' = fallbackPPURL w"
          by (auto split: if_splits)
        have tr: "trace ?w3 = trace w @ ?e # ?mid" by simp
        have "loop_ok en attempt (trace w) (?e # ?mid @ new) ok"
          using new(2) PostResp False lt unfolding tr
          by (intro loop_ok_step[where url=url and d=jsonData]) simp_all
        with new(1,3-) tr show ?thesis
          by (intro exI[of _ "?e # ?mid @ new"]) simp
      qed
    qed
  qed
qed

section \<open>The health cache\<close>

lemma updateHealthCheck_frame [simp]:
  "redisClient (updateHealthCheck en p w) = redisClient w"
  "defaultPPURL (updateHealthCheck en p w) = defaultPPURL w"
  "fallbackPPURL (updateHealthCheck en p w) = fallbackPPURL w"
  by (simp_all add: updateHealthCheck_def Let_def split: get_reply.splits option.splits)

lemma updateHealthCheck_trace:
  "\<exists>new. trace (updateHealthCheck en p w) = trace w @ HttpGet (health_url w p) # new \<and>
     http_gets new = [] \<and> send_calls new = [] \<and> record_calls new = [] \<and> redis_execs new = []
     \<and> http_posts new = []"
  by (simp add: updateHealthCheck_def Let_def split: get_reply.splits option.splits)

lemma updateHealthCheck_keeps:
  "healthCache w q \<noteq> None \<Longrightarrow> healthCache (updateHealthCheck en p w) q \<noteq> None"
  by (auto simp: updateHealthCheck_def Let_def split: get_reply.splits option.splits)

lemma getHealthCheck_frame [simp]:
  "redisClient (snd (getHealthCheck en p w)) = redisClient w"
  "defaultPPURL (snd (getHealthCheck en p w)) = defaultPPURL w"
  "fallbackPPURL (snd (getHealthCheck en p w)) = fallbackPPURL w"
  by (simp_all add: getHealthCheck_def Let_def)

lemma getHealthCheck_result:
  "fst (getHealthCheck en p w) = healthCache (snd (getHealthCheck en p w)) p"
  by (simp add: getHealthCheck_def Let_def split: option.splits)

lemma getHealthCheck_keeps:
  "healthCache w q \<noteq> None \<Longrightarrow> healthCache (snd (getHealthCheck en p w)) q \<noteq> None"
  using updateHealthCheck_keeps[of w q en p] by (auto simp: getHealthCheck_def Let_def)

lemma getHealthCheck_trace:
  "\<exists>new. trace (snd (getHealthCheck en p w)) = trace w @ new \<and>
     set (http_gets new) \<subseteq> {health_url w p} \<and> send_calls new = [] \<and> record_calls new = []
     \<and> redis_execs new = [] \<and> http_posts new = []"
proof (cases "snd (getHealthCheck en p w) = w")
  case True
  then show ?thesis by simp
next
  case False
  then have "snd (getHealthCheck en p w) = updateHealthCheck en p w"
    by (simp add: getHealthCheck_def Let_def split: if_splits)
  with updateHealthCheck_trace[of en p w] show ?thesis
    by auto
qed

lemma selectBestProcessor_snd:
  "snd (selectBestProcessor en w) = snd (getHealthCheck en ''default'' w)"
  by (simp add: selectBestProcessor_def split: prod.splits option.splits)

lemma selectBestProcessor_fst:
  "fst (getHealthCheck en ''default'' w) = Some h \<Longrightarrow>
   fst (selectBestProcessor en w) = Inr (if \<not> Failing h then ''default'' else ''fallback'')"
  by (auto simp: selectBestProcessor_def split: prod.splits option.splits)

text \<open>The cache entry of the other processor, and the latency figure of an entry, do
  not reach the result of a probe or of a read.\<close>

lemma select_ignores_fallback:
  "fst (selectBestProcessor en (w\<lparr>healthCache := (healthCache w)(''fallback'' := x)\<rparr>)) =
   fst (selectBestProcessor en w)"
  by (simp add: selectBestProcessor_def getHealthCheck_def updateHealthCheck_def health_url_def
      emit_def log_Printf_def time_Since_def Let_def
      split: get_reply.splits option.splits prod.splits)

lemma select_ignores_latency:
  "healthCache w ''default'' = Some c \<Longrightarrow>
   fst (selectBestProcessor en
          (w\<lparr>healthCache := (healthCache w)(''default'' \<mapsto> c\<lparr>MinResponseTime := m\<rparr>)\<rparr>)) =
   fst (selectBestProcessor en w)"
  by (simp add: selectBestProcessor_def getHealthCheck_def updateHealthCheck_def health_url_def
      emit_def log_Printf_def time_Since_def Let_def
      split: get_reply.splits option.splits prod.splits)

section \<open>The processor selector\<close>

text \<open>
  C1. Whenever the cache holds an entry for the primary (as it does from
  \<^verbatim>\<open>initHealthCache\<close> on), the selector returns \<open>''default''\<close> if and only if
  the snapshot that \<^verbatim>\<open>getHealthCheck\<close> returns for the primary, after its
  refresh, is not failing, and \<open>''fallback''\<close> otherwise. It probes no URL but the
  primary's health endpoint, and what it returns does not change when the cache entry
  of the secondary or the cached \<open>MinResponseTime\<close> of the primary is replaced by
  anything else.
\<close>

theorem selectBestProcessor_policy:
  assumes "healthCache w ''default'' \<noteq> None"
  shows "\<exists>h new.
      fst (getHealthCheck en ''default'' w) = Some h \<and>
      selectBestProcessor en w =
        (Inr (if \<not> Failing h then ''default'' else ''fallback''),
         snd (getHealthCheck en ''default'' w)) \<and>
      (fst (selectBestProcessor en w) = Inr ''default'' \<longleftrightarrow> \<not> Failing h) \<and>
      (fst (selectBestProcessor en w) = Inr ''fallback'' \<longleftrightarrow> Failing h) \<and>
      trace (snd (selectBestProcessor en w)) = trace w @ new \<and>
      set (http_gets new) \<subseteq> {health_url w ''default''} \<and>
      (\<forall>x. fst (selectBestProcessor en (w\<lparr>healthCache := (healthCache w)(''fallback'' := x)\<rparr>))
           = fst (selectBestProcessor en w)) \<and>
      (\<forall>c m. healthCache w ''default'' = Some c \<longrightarrow>
           fst (selectBestProcessor en
             (w\<lparr>healthCache := (healthCache w)(''default'' \<mapsto> c\<lparr>MinResponseTime := m\<rparr>)\<rparr>))
           = fst (selectBestProcessor en w))"
proof -
  from assms getHealthCheck_keeps[of w "''default''" en "''default''"]
  obtain h where h: "fst (getHealthCheck en ''default'' w) = Some h"
    by (auto simp: getHealthCheck_result)
  obtain new where new: "trace (snd (getHealthCheck en ''default'' w)) = trace w @ new"
    "set (http_gets new) \<subseteq> {health_url w ''default''}"
    using getHealthCheck_trace[of en "''default''" w] by auto
  have sel: "selectBestProcessor en w =
      (Inr (if \<not> Failing h then ''default'' else ''fallback''),
       snd (getHealthCheck en ''default'' w))"
    using selectBestProcessor_fst[OF h] selectBestProcessor_snd[of en w]
    by (simp add: prod_eq_iff)
  show ?thesis
    using h new sel select_ignores_fallback select_ignores_latency
    by (intro exI[of _ h] exI[of _ new]) simp
qed

theorem selectBestProcessor_policy_witness:
  "healthCache (started env_up) ''default'' \<noteq> None \<and>
   selectBestProcessor env_up (started env_up) =
     (Inr ''default'',
      (started env_up)\<lparr>healthCache := (healthCache (started env_up))
          (''default'' \<mapsto> \<lparr>Failing = False, MinResponseTime = 5,
             LastCheckedAt = 64000000000000000000\<rparr>),
        trace := [RedisPing,
          HttpGet ''http://payment-processor-default:8080/payments/service-health'',
          Log (HealthCheckUpdated ''default'' False 5)]\<rparr>)"
  using selectBestProcessor_policy[of "started env_up" env_up]
  by (simp add: started_def main_startup_def world0_def env_up_def initHealthCache_def
      selectBestProcessor_def getHealthCheck_def updateHealthCheck_def health_url_def
      emit_def log_Printf_def time_Since_def time_Second_def Let_def)

section \<open>The health prober\<close>

text \<open>
  C6. When the health request fails at the transport level, the cache entry of that
  processor is overwritten with \<open>Failing = True\<close>, \<open>MinResponseTime = 1000\<close>
  and the time read after the failure; all other entries stay as they are. In every
  later state where the primary's entry is still this snapshot and at most five seconds
  have passed since it was taken, the selector returns \<open>''fallback''\<close> and leaves
  the state as it is, history included: it sends no probe.
\<close>

theorem updateHealthCheck_unreachable:
  assumes "http_Get en (trace w) (health_url w processor) = GetErr"
  shows "let now = time_Now en (trace w @
                [HttpGet (health_url w processor), Log (HealthCheckError processor)]);
             pessimistic = \<lparr>Failing = True, MinResponseTime = 1000, LastCheckedAt = now\<rparr>
         in healthCache (updateHealthCheck en processor w) =
              (healthCache w)(processor \<mapsto> pessimistic) \<and>
            (\<forall>w2. healthCache w2 ''default'' = Some pessimistic \<and>
                  time_Since en w2 now \<le> 5 * time_Second \<longrightarrow>
                  selectBestProcessor en w2 = (Inr ''fallback'', w2))"
  using assms
  by (simp add: updateHealthCheck_def Let_def emit_def log_Printf_def
      selectBestProcessor_def getHealthCheck_def)

theorem updateHealthCheck_unreachable_witness:
  "http_Get env_unreachable (trace (started env_unreachable))
     (health_url (started env_unreachable) ''default'') = GetErr \<and>
   healthCache (updateHealthCheck env_unreachable ''default'' (started env_unreachable))
     ''default'' =
     Some \<lparr>Failing = True, MinResponseTime = 1000, LastCheckedAt = 64000000000000000000\<rparr> \<and>
   selectBestProcessor env_unreachable
       (updateHealthCheck env_unreachable ''default'' (started env_unreachable)) =
     (Inr ''fallback'',
      updateHealthCheck env_unreachable ''default'' (started env_unreachable))"
  using updateHealthCheck_unreachable[of env_unreachable "started env_unreachable" "''default''"]
  by (simp add: run_defs)

text \<open>
  C7. When the probe is answered with status 429, or with a body that does not decode,
  the health cache is left exactly as it was, for every processor: the only effect of
  the probe is the request and one log line in the history.
\<close>

theorem updateHealthCheck_no_update:
  assumes "http_Get en (trace w) (health_url w processor) = GetResp status body"
    and "status = 429 \<or> body = None"
  shows "healthCache (updateHealthCheck en processor w) = healthCache w \<and>
         updateHealthCheck en processor w =
           w\<lparr>trace := trace w @
              [HttpGet (health_url w processor),
               Log (if status = 429 then RateLimitExceeded processor
                    else HealthDecodeError processor)]\<rparr>"
  using assms by (auto simp: updateHealthCheck_def Let_def emit_def log_Printf_def)

theorem updateHealthCheck_no_update_witness:
  "healthCache (updateHealthCheck env_rate_limited ''default'' (started env_rate_limited)) =
     healthCache (started env_rate_limited) \<and>
   healthCache (started env_rate_limited) ''default'' =
     Some \<lparr>Failing = False, MinResponseTime = 100, LastCheckedAt = 0\<rparr> \<and>
   healthCache (updateHealthCheck env_garbled ''fallback'' (started env_garbled)) =
     healthCache (started env_garbled)"
  using updateHealthCheck_no_update[of env_rate_limited "started env_rate_limited"
      "''default''" 429 None]
    updateHealthCheck_no_update[of env_garbled "started env_garbled" "''fallback''" 200 None]
  by (simp add: run_defs)

text \<open>
  C10. When the probe is answered with any status other than 429 and the body decodes,
  the entry of that processor is overwritten with the decoded \<open>Failing\<close> and
  \<open>MinResponseTime\<close> and the time read after the response. The resulting state is
  given without any mention of the status: 4xx and 5xx answers are treated as a 200 is.
\<close>

theorem updateHealthCheck_decoded:
  assumes "http_Get en (trace w) (health_url w processor) = GetResp status (Some h)"
    and "status \<noteq> 429"
  shows "updateHealthCheck en processor w =
     w\<lparr>healthCache := (healthCache w)
         (processor \<mapsto> \<lparr>Failing = Failing h, MinResponseTime = MinResponseTime h,
            LastCheckedAt = time_Now en (trace w @ [HttpGet (health_url w processor)])\<rparr>),
       trace := trace w @
         [HttpGet (health_url w processor),
          Log (HealthCheckUpdated processor (Failing h) (MinResponseTime h))]\<rparr>"
  using assms by (simp add: updateHealthCheck_def Let_def emit_def log_Printf_def)

theorem updateHealthCheck_decoded_witness:
  "healthCache (updateHealthCheck env_erroring ''default'' (started env_erroring)) ''default'' =
     Some \<lparr>Failing = True, MinResponseTime = 30, LastCheckedAt = 64000000000000000000\<rparr>"
  using updateHealthCheck_decoded[of env_erroring "started env_erroring" "''default''" 503
      "\<lparr>Failing = True, MinResponseTime = 30\<rparr>"]
  by (simp add: run_defs)

section \<open>Staleness of what the cache returns\<close>




section \<open>The delivery sender\<close>

lemma sendToProcessor_trace:
  assumes "sendToProcessor en processor ppReq w = (ok, w')"
  shows "\<exists>new. trace w' = trace w @ SendCall processor # new \<and>
     send_calls new = [] \<and> record_calls new = [] \<and> redis_execs new = [] \<and>
     http_gets new = [] \<and> set (http_posts new) \<subseteq> {payments_url w processor} \<and>
     healthCache w' = healthCache w \<and> redisClient w' = redisClient w \<and>
     defaultPPURL w' = defaultPPURL w \<and> fallbackPPURL w' = fallbackPPURL w \<and>
     (case json_Marshal ppReq of
        None \<Rightarrow> \<not> ok \<and> new = [Log MarshalError]
      | Some jsonData \<Rightarrow> loop_ok en 0 (trace w @ [SendCall processor]) new ok)"
proof (cases "json_Marshal ppReq")
  case None
  with assms show ?thesis
    by (auto simp: sendToProcessor_def Let_def)
next
  case (Some jsonData)
  with assms have "sendToProcessor_loop en (payments_url w processor) processor jsonData 0
      (emit (SendCall processor) w) = (ok, w')"
    by (auto simp: sendToProcessor_def Let_def payments_url_def split: if_splits)
  from loop_trace[OF this] Some show ?thesis
    by (auto simp: loop_ok_def Let_def)
qed

text \<open>
  The payload that \<^verbatim>\<open>processPayment\<close> builds from a payment with a finite amount
  is serialised without an error: this is every payload the sender is called with, since
  the amount of a payment is decoded from the JSON body of the request.
\<close>

lemma build_ppReq_marshals:
  "Amount req = Finite q \<Longrightarrow>
   json_Marshal (build_ppReq en req w) = Some (build_ppReq en req w)"
  by (simp add: json_Marshal_def build_ppReq_def)

text \<open>
  C4. Every call of \<^verbatim>\<open>sendToProcessor\<close> with a payload that can be serialised
  makes at most three submissions, and every submission but the last one made was
  answered with a transport error or a status outside \<open>[200, 300)\<close>. When the call
  returns \<open>True\<close>, the last submission made was answered with a status in
  \<open>[200, 300)\<close> and is the last event of the call: nothing is sent, slept or logged
  after it. When the call returns \<open>False\<close>, three submissions have been made and
  none of them was answered with a status in \<open>[200, 300)\<close>.
\<close>

theorem sendToProcessor_attempts:
  assumes "sendToProcessor en processor ppReq w = (ok, w')"
    and "json_Marshal ppReq \<noteq> None"
  shows "\<exists>new. trace w' = trace w @ SendCall processor # new \<and>
     (let rs = post_replies en (trace w @ [SendCall processor]) new in
        length rs \<le> 3 \<and>
        list_all (\<lambda>r. \<not> is_success r) (butlast rs) \<and>
        (if ok then rs \<noteq> [] \<and> is_success (last rs) \<and> is_HttpPost (last new)
         else length rs = 3 \<and> list_all (\<lambda>r. \<not> is_success r) rs))"
proof -
  from assms(2) obtain jsonData where m: "json_Marshal ppReq = Some jsonData"
    by auto
  from sendToProcessor_trace[OF assms(1)] m obtain new where
    new: "trace w' = trace w @ SendCall processor # new"
    and c: "loop_ok en 0 (trace w @ [SendCall processor]) new ok"
    by auto
  from c new show ?thesis
    by (intro exI[of _ new]) (simp add: loop_ok_def Let_def maxRetries_def)
qed

theorem sendToProcessor_attempts_witness:
  "json_Marshal (build_ppReq env_flaky payment1 (started env_flaky)) \<noteq> None \<and>
   fst (sendToProcessor env_flaky ''default''
          (build_ppReq env_flaky payment1 (started env_flaky)) (started env_flaky)) = True \<and>
   http_posts (trace (snd (sendToProcessor env_flaky ''default''
          (build_ppReq env_flaky payment1 (started env_flaky)) (started env_flaky)))) =
     [''http://payment-processor-default:8080/payments'',
      ''http://payment-processor-default:8080/payments''] \<and>
   log_lines (trace (snd (sendToProcessor env_flaky ''default''
          (build_ppReq env_flaky payment1 (started env_flaky)) (started env_flaky)))) =
     [AttemptStatus 500 1 ''default''] \<and>
   fst (sendToProcessor env_primary_down ''default''
          (build_ppReq env_primary_down payment1 (started env_primary_down))
          (started env_primary_down)) = False \<and>
   http_posts (trace (snd (sendToProcessor env_primary_down ''default''
          (build_ppReq env_primary_down payment1 (started env_primary_down))
          (started env_primary_down)))) =
     [''http://payment-processor-default:8080/payments'',
      ''http://payment-processor-default:8080/payments'',
      ''http://payment-processor-default:8080/payments'']"
  using sendToProcessor_attempts[of env_flaky "''default''"
      "build_ppReq env_flaky payment1 (started env_flaky)" "started env_flaky"]
    sendToProcessor_attempts[of env_primary_down "''default''"
      "build_ppReq env_primary_down payment1 (started env_primary_down)"
      "started env_primary_down"]
  by (simp add: pay_defs send_defs run_defs sendToProcessor_loop.simps)

section \<open>The summary aggregator\<close>

text \<open>
  C8. With no Redis client, or with a Redis that answers \<^verbatim>\<open>redis.Nil\<close> for every
  field of the processor's key, \<^verbatim>\<open>getProcessorSummary\<close> returns zero requests and
  a zero amount. The function returns a summary and nothing else, and on these two paths
  it logs nothing.
\<close>

theorem getProcessorSummary_missing:
  assumes "redisClient w = None \<or>
     (\<forall>tr field. redis_HGet en tr (summary_key processor) field = HGetNil)"
  shows "fst (getProcessorSummary en processor w) =
           \<lparr>TotalRequests = 0, TotalAmount = Finite 0\<rparr> \<and>
         log_lines (trace (snd (getProcessorSummary en processor w))) = log_lines (trace w)"
  using assms
  by (auto simp: getProcessorSummary_def Let_def hget_string_def split: option.splits)

theorem getProcessorSummary_missing_witness:
  "redisClient (started env_no_redis) = None \<and>
   fst (getProcessorSummary env_no_redis ''default'' (started env_no_redis)) =
     \<lparr>TotalRequests = 0, TotalAmount = Finite 0\<rparr> \<and>
   redisClient (started env_up) = Some (Client ''localhost:6379'') \<and>
   fst (getProcessorSummary env_up ''fallback'' (started env_up)) =
     \<lparr>TotalRequests = 0, TotalAmount = Finite 0\<rparr>"
  using getProcessorSummary_missing[of "started env_no_redis" env_no_redis "''default''"]
    getProcessorSummary_missing[of "started env_up" env_up "''fallback''"]
  by (simp add: run_defs env_no_redis_def)

text \<open>
  After a start-up whose ping failed, two recorded deliveries leave three log lines: the
  warning of the start-up and one line for each delivery.
\<close>

theorem no_store_log_counterexample:
  "log_lines (trace (updateSummaryCounters env_no_redis ''default'' (Finite 20)
      (updateSummaryCounters env_no_redis ''default'' (Finite 10) (started env_no_redis)))) =
   [RedisUnavailable, InMemoryCounters ''default'' (Finite 10),
    InMemoryCounters ''default'' (Finite 20)]"
  by (simp add: run_defs env_no_redis_def updateSummaryCounters_def)

text \<open>
  C9, as the code has it. When the ping of the start-up fails, the client is dropped and
  the warning is logged once. Without a client, recording a delivery sends nothing to
  Redis and changes no global, but it writes one log line for each call; reading a summary
  returns zeros and changes nothing at all, the history included.
\<close>

theorem no_store_mode:
  "(\<not> redis_Ping en (trace w) \<longrightarrow>
      redisClient (main_startup en redisAddr w) = None \<and>
      trace (main_startup en redisAddr w) = trace w @ [RedisPing, Log RedisUnavailable]) \<and>
   (redisClient v = None \<longrightarrow>
      updateSummaryCounters en processor amount v =
        v\<lparr>trace := trace v @
            [RecordCall processor amount, Log (InMemoryCounters processor amount)]\<rparr> \<and>
      getProcessorSummary en processor v =
        (\<lparr>TotalRequests = 0, TotalAmount = Finite 0\<rparr>, v))"
  by (simp add: main_startup_def initHealthCache_def updateSummaryCounters_def
      getProcessorSummary_def emit_def log_Printf_def Let_def)

theorem no_store_mode_witness:
  "\<not> redis_Ping env_no_redis (trace world0) \<and>
   redisClient (started env_no_redis) = None \<and>
   trace (started env_no_redis) = [RedisPing, Log RedisUnavailable] \<and>
   redis_execs (trace (updateSummaryCounters env_no_redis ''default'' (Finite 10)
      (started env_no_redis))) = [] \<and>
   getProcessorSummary env_no_redis ''default''
      (updateSummaryCounters env_no_redis ''default'' (Finite 10) (started env_no_redis)) =
     (\<lparr>TotalRequests = 0, TotalAmount = Finite 0\<rparr>,
      updateSummaryCounters env_no_redis ''default'' (Finite 10) (started env_no_redis))"
  using no_store_mode[of env_no_redis world0 "''localhost:6379''" "started env_no_redis"
      "''default''" "Finite 10"]
    no_store_mode[of env_no_redis world0 "''localhost:6379''"
      "updateSummaryCounters env_no_redis ''default'' (Finite 10) (started env_no_redis)"
      "''default''" "Finite 10"]
  by (simp add: run_defs env_no_redis_def updateSummaryCounters_def)

section \<open>The orchestrator\<close>

lemma selectBestProcessor_returns:
  assumes "healthCache w ''default'' \<noteq> None"
  shows "\<exists>processor w1 new. selectBestProcessor en w = (Inr processor, w1) \<and>
     (processor = ''default'' \<or> processor = ''fallback'') \<and>
     trace w1 = trace w @ new \<and> send_calls new = [] \<and> record_calls new = [] \<and>
     redis_execs new = [] \<and> redisClient w1 = redisClient w"
proof -
  from assms getHealthCheck_keeps[of w "''default''" en "''default''"]
  obtain h where h: "fst (getHealthCheck en ''default'' w) = Some h"
    by (auto simp: getHealthCheck_result)
  let ?w1 = "snd (getHealthCheck en ''default'' w)"
  obtain new where new: "trace ?w1 = trace w @ new" "send_calls new = []"
    "record_calls new = []" "redis_execs new = []"
    using getHealthCheck_trace[of en "''default''" w] by auto
  have "selectBestProcessor en w =
      (Inr (if \<not> Failing h then ''default'' else ''fallback''), ?w1)"
    using selectBestProcessor_fst[OF h] selectBestProcessor_snd[of en w]
    by (simp add: prod_eq_iff)
  with new show ?thesis by auto
qed

lemma updateSummaryCounters_trace:
  "\<exists>new. trace (updateSummaryCounters en processor amount w) =
       trace w @ RecordCall processor amount # new \<and>
     send_calls new = [] \<and> record_calls new = [] \<and>
     redis_execs new =
       (if redisClient w = None then [] else [counter_cmds processor amount])"
  by (simp add: updateSummaryCounters_def Let_def split: option.splits)

text \<open>The three ways a payment can go, once a processor is selected.\<close>

lemma processPayment_first_ok:
  assumes "selectBestProcessor en w = (Inr processor, w1)"
    and "sendToProcessor en processor (build_ppReq en req w1) w1 = (True, w2)"
  shows "processPayment en req w =
     (Inr (), log_Printf (PaymentProcessed (CorrelationID req) processor)
                (updateSummaryCounters en processor (Amount req) w2))"
  using assms by (simp add: processPayment_def Let_def)

lemma processPayment_no_failover:
  assumes "selectBestProcessor en w = (Inr processor, w1)"
    and "sendToProcessor en processor (build_ppReq en req w1) w1 = (False, w2)"
    and "processor \<noteq> ''default''"
  shows "processPayment en req w =
     (Inr (), log_Printf (PaymentFailed (CorrelationID req)) w2)"
  using assms by (simp add: processPayment_def Let_def)

lemma processPayment_failover_run:
  assumes "selectBestProcessor en w = (Inr ''default'', w1)"
    and "sendToProcessor en ''default'' (build_ppReq en req w1) w1 = (False, w2)"
    and "sendToProcessor en ''fallback'' (build_ppReq en req w1)
           (log_Printf (DefaultFailedTryingFallback (CorrelationID req)) w2) = (s2, w3)"
  shows "processPayment en req w =
     (Inr (), if s2
        then log_Printf (PaymentProcessed (CorrelationID req) ''fallback'')
               (updateSummaryCounters en ''fallback'' (Amount req) w3)
        else log_Printf (PaymentFailed (CorrelationID req)) w3)"
  using assms by (simp add: processPayment_def Let_def)

text \<open>
  C2. Whenever the cache holds an entry for the primary, \<^verbatim>\<open>processPayment\<close>
  selects a processor, runs to its end, and calls \<^verbatim>\<open>sendToProcessor\<close> as
  follows: for the selected processor first; then, if that was the primary and the call
  returned \<open>False\<close>, exactly once more, for \<open>''fallback''\<close>; and not again
  otherwise, in particular not when the selected processor was the secondary and the
  call returned \<open>False\<close>.
\<close>

theorem processPayment_failover:
  assumes "healthCache w ''default'' \<noteq> None"
  shows "\<exists>processor w1 success w2.
     selectBestProcessor en w = (Inr processor, w1) \<and>
     (processor = ''default'' \<or> processor = ''fallback'') \<and>
     sendToProcessor en processor (build_ppReq en req w1) w1 = (success, w2) \<and>
     fst (processPayment en req w) = Inr () \<and>
     send_calls (trace (snd (processPayment en req w))) =
       send_calls (trace w) @
         (if processor = ''default'' \<and> \<not> success then [''default'', ''fallback'']
          else [processor])"
proof -
  from selectBestProcessor_returns[OF assms, of en]
  obtain processor w1 new0 where sel: "selectBestProcessor en w = (Inr processor, w1)"
    and p: "processor = ''default'' \<or> processor = ''fallback''"
    and t0: "trace w1 = trace w @ new0" "send_calls new0 = []"
    by blast
  obtain success w2 where
    s1: "sendToProcessor en processor (build_ppReq en req w1) w1 = (success, w2)"
    by (cases "sendToProcessor en processor (build_ppReq en req w1) w1")
  from sendToProcessor_trace[OF s1] obtain new1 where
    t1: "trace w2 = trace w1 @ SendCall processor # new1" "send_calls new1 = []"
    by blast
  let ?w2' = "log_Printf (DefaultFailedTryingFallback (CorrelationID req)) w2"
  obtain s2 w3 where
    s2: "sendToProcessor en ''fallback'' (build_ppReq en req w1) ?w2' = (s2, w3)"
    by (cases "sendToProcessor en ''fallback'' (build_ppReq en req w1) ?w2'")
  from sendToProcessor_trace[OF s2] obtain new2 where
    t2: "trace w3 = trace ?w2' @ SendCall ''fallback'' # new2" "send_calls new2 = []"
    by blast
  obtain new3 where t3: "trace (updateSummaryCounters en processor (Amount req) w2) =
      trace w2 @ RecordCall processor (Amount req) # new3" "send_calls new3 = []"
    using updateSummaryCounters_trace[of en processor "Amount req" w2] by blast
  obtain new4 where t4: "trace (updateSummaryCounters en ''fallback'' (Amount req) w3) =
      trace w3 @ RecordCall ''fallback'' (Amount req) # new4" "send_calls new4 = []"
    using updateSummaryCounters_trace[of en "''fallback''" "Amount req" w3] by blast
  have "fst (processPayment en req w) = Inr () \<and>
     send_calls (trace (snd (processPayment en req w))) =
       send_calls (trace w) @
         (if processor = ''default'' \<and> \<not> success then [''default'', ''fallback'']
          else [processor])"
  proof (cases success)
    case True
    with processPayment_first_ok[of en w processor w1 req w2] sel s1 t0 t1 t3
    show ?thesis by simp
  next
    case False
    show ?thesis
    proof (cases "processor = ''default''")
      case True
      with processPayment_failover_run[of en w w1 req w2 s2 w3] False sel s1 s2 t0 t1 t2 t4
      show ?thesis by simp
    next
      case False
      with processPayment_no_failover[of en w processor w1 req w2] \<open>\<not> success\<close> sel s1 t0 t1
      show ?thesis by simp
    qed
  qed
  with sel p s1 show ?thesis by blast
qed

theorem processPayment_failover_witness:
  "healthCache (started env_primary_down) ''default'' \<noteq> None \<and>
   send_calls (trace (snd (processPayment env_primary_down payment1
      (started env_primary_down)))) = [''default'', ''fallback''] \<and>
   http_posts (trace (snd (processPayment env_primary_down payment1
      (started env_primary_down)))) =
     [''http://payment-processor-default:8080/payments'',
      ''http://payment-processor-default:8080/payments'',
      ''http://payment-processor-default:8080/payments'',
      ''http://payment-processor-fallback:8080/payments'']"
  using processPayment_failover[of "started env_primary_down" env_primary_down payment1]
  by (simp add: pay_defs send_defs run_defs sendToProcessor_loop.simps)

text \<open>
  After a start-up whose ping failed, a payment is delivered to the primary at the first
  attempt; \<^verbatim>\<open>updateSummaryCounters\<close> is called once for it, and no increment is
  sent to any store.
\<close>

theorem processPayment_counts_counterexample:
  "redisClient (started env_no_redis) = None \<and>
   log_lines (trace (snd (processPayment env_no_redis payment1 (started env_no_redis)))) =
     [RedisUnavailable, HealthCheckUpdated ''default'' False 5,
      InMemoryCounters ''default'' (Finite 100),
      PaymentProcessed ''4a7901b8-7d26-4d9d-aa19-4dc1c7cf60b3'' ''default''] \<and>
   record_calls (trace (snd (processPayment env_no_redis payment1 (started env_no_redis)))) =
     [(''default'', Finite 100)] \<and>
   redis_execs (trace (snd (processPayment env_no_redis payment1 (started env_no_redis)))) = []"
  by (simp add: pay_defs send_defs run_defs sendToProcessor_loop.simps)

text \<open>
  C3, as the code has it. Let the delivery be the first call of
  \<^verbatim>\<open>sendToProcessor\<close> if it returned \<open>True\<close>, and otherwise the second
  one, made for \<open>''fallback''\<close> after the primary failed, if that returned
  \<open>True\<close>. If there is a delivery, \<^verbatim>\<open>updateSummaryCounters\<close> is called
  exactly once, with the processor of the delivery and the amount of the payment; with a
  Redis client this call executes exactly one pipeline, which increments
  \<open>totalRequests\<close> of that processor's key by 1 and \<open>totalAmount\<close> by the
  amount, and without a client it sends no increment. If there is no delivery,
  \<^verbatim>\<open>updateSummaryCounters\<close> is not called and no pipeline is executed.
\<close>

theorem processPayment_counts:
  assumes "healthCache w ''default'' \<noteq> None"
  shows "\<exists>processor w1 s1 w2 s2 w3.
     selectBestProcessor en w = (Inr processor, w1) \<and>
     sendToProcessor en processor (build_ppReq en req w1) w1 = (s1, w2) \<and>
     sendToProcessor en ''fallback'' (build_ppReq en req w1)
       (log_Printf (DefaultFailedTryingFallback (CorrelationID req)) w2) = (s2, w3) \<and>
     (let delivered = (if s1 then Some processor
                       else if processor = ''default'' \<and> s2 then Some ''fallback''
                       else None);
          final = snd (processPayment en req w)
      in record_calls (trace final) =
           record_calls (trace w) @
             (case delivered of None \<Rightarrow> [] | Some p \<Rightarrow> [(p, Amount req)]) \<and>
         redis_execs (trace final) =
           redis_execs (trace w) @
             (case delivered of
                None \<Rightarrow> []
              | Some p \<Rightarrow>
                  if redisClient w = None then []
                  else [[HIncrBy (''summary:'' @ p) ''totalRequests'' 1,
                         HIncrByFloat (''summary:'' @ p) ''totalAmount'' (Amount req)]]))"
proof -
  from selectBestProcessor_returns[OF assms, of en]
  obtain processor w1 new0 where sel: "selectBestProcessor en w = (Inr processor, w1)"
    and t0: "trace w1 = trace w @ new0" "record_calls new0 = []" "redis_execs new0 = []"
      "redisClient w1 = redisClient w"
    by blast
  obtain s1 w2 where
    s1: "sendToProcessor en processor (build_ppReq en req w1) w1 = (s1, w2)"
    by (cases "sendToProcessor en processor (build_ppReq en req w1) w1")
  from sendToProcessor_trace[OF s1] obtain new1 where
    t1: "trace w2 = trace w1 @ SendCall processor # new1" "record_calls new1 = []"
      "redis_execs new1 = []" "redisClient w2 = redisClient w1"
    by blast
  let ?w2' = "log_Printf (DefaultFailedTryingFallback (CorrelationID req)) w2"
  obtain s2 w3 where
    s2: "sendToProcessor en ''fallback'' (build_ppReq en req w1) ?w2' = (s2, w3)"
    by (cases "sendToProcessor en ''fallback'' (build_ppReq en req w1) ?w2'")
  from sendToProcessor_trace[OF s2] obtain new2 where
    t2: "trace w3 = trace ?w2' @ SendCall ''fallback'' # new2" "record_calls new2 = []"
      "redis_execs new2 = []" "redisClient w3 = redisClient ?w2'"
    by blast
  obtain new3 where t3: "trace (updateSummaryCounters en processor (Amount req) w2) =
      trace w2 @ RecordCall processor (Amount req) # new3" "record_calls new3 = []"
      "redis_execs new3 =
         (if redisClient w2 = None then [] else [counter_cmds processor (Amount req)])"
    using updateSummaryCounters_trace[of en processor "Amount req" w2] by blast
  obtain new4 where t4: "trace (updateSummaryCounters en ''fallback'' (Amount req) w3) =
      trace w3 @ RecordCall ''fallback'' (Amount req) # new4" "record_calls new4 = []"
      "redis_execs new4 =
         (if redisClient w3 = None then [] else [counter_cmds ''fallback'' (Amount req)])"
    using updateSummaryCounters_trace[of en "''fallback''" "Amount req" w3] by blast
  have rc: "redisClient w2 = redisClient w" "redisClient w3 = redisClient w"
    using t0 t1 t2 by simp_all
  let ?delivered = "if s1 then Some processor
                    else if processor = ''default'' \<and> s2 then Some ''fallback'' else None"
  let ?final = "snd (processPayment en req w)"
  have "record_calls (trace ?final) =
           record_calls (trace w) @
             (case ?delivered of None \<Rightarrow> [] | Some p \<Rightarrow> [(p, Amount req)]) \<and>
         redis_execs (trace ?final) =
           redis_execs (trace w) @
             (case ?delivered of
                None \<Rightarrow> []
              | Some p \<Rightarrow>
                  if redisClient w = None then []
                  else [[HIncrBy (''summary:'' @ p) ''totalRequests'' 1,
                         HIncrByFloat (''summary:'' @ p) ''totalAmount'' (Amount req)]])"
  proof (cases s1)
    case True
    with processPayment_first_ok[of en w processor w1 req w2] sel s1 t0 t1 t3 rc
    show ?thesis by (simp add: counter_cmds_def summary_key_def)
  next
    case False
    show ?thesis
    proof (cases "processor = ''default''")
      case True
      with processPayment_failover_run[of en w w1 req w2 s2 w3] False sel s1 s2 t0 t1 t2 t4 rc
      show ?thesis by (simp add: counter_cmds_def summary_key_def)
    next
      case False
      with processPayment_no_failover[of en w processor w1 req w2] \<open>\<not> s1\<close> sel s1 t0 t1
      show ?thesis by simp
    qed
  qed
  with sel s1 s2 show ?thesis
    unfolding Let_def by blast
qed

theorem processPayment_counts_witness:
  "healthCache (started env_primary_down) ''default'' \<noteq> None \<and>
   redisClient (started env_primary_down) = Some (Client ''localhost:6379'') \<and>
   record_calls (trace (snd (processPayment env_primary_down payment1
      (started env_primary_down)))) = [(''fallback'', Finite 100)] \<and>
   redis_execs (trace (snd (processPayment env_primary_down payment1
      (started env_primary_down)))) =
     [[HIncrBy ''summary:fallback'' ''totalRequests'' 1,
       HIncrByFloat ''summary:fallback'' ''totalAmount'' (Finite 100)]]"
  using processPayment_counts[of "started env_primary_down" env_primary_down payment1]
  by (simp add: pay_defs send_defs run_defs sendToProcessor_loop.simps)

section \<open>The invariant of the cache\<close>

text \<open>
  The entry of the primary is there once \<^verbatim>\<open>main\<close> has started the server, and
  no payment removes it.
\<close>

lemma main_startup_cache:
  "healthCache (main_startup en redisAddr w) ''default'' \<noteq> None"
  by (simp add: main_startup_def initHealthCache_def Let_def)

lemma updateSummaryCounters_cache:
  "healthCache (updateSummaryCounters en processor amount w) = healthCache w"
  by (simp add: updateSummaryCounters_def Let_def split: option.splits)

lemma processPayment_keeps:
  assumes "healthCache w ''default'' \<noteq> None"
  shows "healthCache (snd (processPayment en req w)) ''default'' \<noteq> None"
proof -
  from selectBestProcessor_returns[OF assms, of en]
  obtain processor w1 where sel: "selectBestProcessor en w = (Inr processor, w1)"
    by blast
  have c1: "healthCache w1 ''default'' \<noteq> None"
    using getHealthCheck_keeps[OF assms, of en "''default''"] sel
      selectBestProcessor_snd[of en w] by simp
  obtain s1 w2 where
    s1: "sendToProcessor en processor (build_ppReq en req w1) w1 = (s1, w2)"
    by (cases "sendToProcessor en processor (build_ppReq en req w1) w1")
  from sendToProcessor_trace[OF s1] have c2: "healthCache w2 = healthCache w1"
    by blast
  let ?w2' = "log_Printf (DefaultFailedTryingFallback (CorrelationID req)) w2"
  obtain s2 w3 where
    s2: "sendToProcessor en ''fallback'' (build_ppReq en req w1) ?w2' = (s2, w3)"
    by (cases "sendToProcessor en ''fallback'' (build_ppReq en req w1) ?w2'")
  from sendToProcessor_trace[OF s2] have c3: "healthCache w3 = healthCache w1"
    using c2 by auto
  show ?thesis
  proof (cases s1)
    case True
    with processPayment_first_ok[of en w processor w1 req w2] sel s1 c1 c2
    show ?thesis by (simp add: updateSummaryCounters_cache)
  next
    case False
    show ?thesis
    proof (cases "processor = ''default''")
      case True
      with processPayment_failover_run[of en w w1 req w2 s2 w3] False sel s1 s2 c1 c3
      show ?thesis by (simp add: updateSummaryCounters_cache)
    next
      case False
      with processPayment_no_failover[of en w processor w1 req w2] \<open>\<not> s1\<close> sel s1 c1 c2
      show ?thesis by simp
    qed
  qed
qed

end
